theory Spec2Isabelle
  imports Main "HOL-Library.Word"
begin

section \<open>The coroutine runtime of coroutine.h\<close>

text \<open>
  The header declares two classes, \<open>Coroutine\<close> and \<open>CoroutineMachine\<close>, and defines
  inline the sleeping wrappers \<open>Millisleep\<close> and \<open>Sleep\<close> and the two templates
  \<open>YieldValue\<close> and \<open>Call\<close>. Those are embedded from the header. Every other member
  function is declared only; where a property needs one, it is modelled from the
  specification and marked so.
\<close>

subsection \<open>Sleeping wrappers (coroutine.h, lines 80 to 82)\<close>

text \<open>
  \<open>time_t\<close> is taken as the 64-bit signed integer of the LP64 targets the runtime is
  written for; \<open>1000000LL\<close> is a 64-bit \<open>long long\<close>, so the product is a 64-bit signed
  multiplication, read here with two's complement wrap-around, and the conversion to
  the \<open>uint64_t\<close> parameter of \<open>Nanosleep\<close> keeps the 64 bits. \<open>Nanosleep\<close> itself is
  declared only and is taken as a parameter.
\<close>

definition Millisleep :: "(64 word \<Rightarrow> 'a) \<Rightarrow> 64 word \<Rightarrow> 'a" where
  "Millisleep Nanosleep msecs = Nanosleep (msecs * 1000000)"

definition Sleep :: "(64 word \<Rightarrow> 'a) \<Rightarrow> 64 word \<Rightarrow> 'a" where
  "Sleep Nanosleep secs = Nanosleep (secs * 1000000000)"

subsection \<open>Data (coroutine.h, lines 107 to 148 and 183 to 209)\<close>

datatype State = kCoNew | kCoReady | kCoRunning | kCoYielded | kCoWaiting | kCoDead

type_synonym byte = "8 word"

record pollfd =
  fd :: int
  events :: "16 word"
  revents :: "16 word"

definition POLLIN :: "16 word" where
  "POLLIN = 1"

text \<open>
  A coroutine body is user code behind \<open>std::function\<close>. It is represented by the
  sequence of runtime operations it performs: \<open>DoCall callee r n\<close> is \<open>Call<T>(callee)\<close>
  with \<open>sizeof(T) = n\<close> and the local \<open>result\<close> at address \<open>r\<close> of the caller's stack,
  \<open>DoYieldValue v\<close> is \<open>YieldValue(value)\<close> for a value whose object representation is
  the bytes \<open>v\<close>, and \<open>DoWait fds timeout_ns t\<close> is \<open>Wait(fds, timeout_ns)\<close> where \<open>t\<close> is
  the descriptor the host hands out should a timer be created.
\<close>

datatype instr =
    DoCall nat nat nat
  | DoYieldValue "byte list"
  | DoYield
  | DoWait "pollfd list" "64 word" int
  | DoExit
  | DoStart nat

text \<open>
  What \<open>setjmp(resume_)\<close> captured: the operation the coroutine is suspended in.
  \<open>AtEntry\<close> stands for a body that has not been entered yet.
\<close>

datatype resume_point =
    AtEntry
  | InCall nat nat nat
  | InYieldValue
  | InYield
  | InWait "int option"

text \<open>
  The fields of \<open>class Coroutine\<close> that the operations below read or write. A
  \<open>Coroutine *\<close> is a \<open>nat\<close> (an address into the object store of the machine), the
  null pointer is \<open>None\<close>. \<open>body\<close> stands for \<open>functor_\<close>: the part of the body still to be
  executed;
  \<open>event_count\<close> is the number of bytes pending in the descriptor \<open>event_fd_\<close>;
  \<open>call_results\<close> records, in order, the values that \<open>Call\<close> has returned to the body.
  Isabelle reserves names that end in an underscore, so the members \<open>state_\<close>,
  \<open>caller_\<close>, \<open>result_\<close>, ... are written without it.
\<close>

record Coroutine =
  body :: "instr list"
  state :: State
  resume :: resume_point
  event_fd :: pollfd
  event_count :: nat
  wait_fds :: "pollfd list"
  caller :: "nat option"
  result :: "nat option"
  last_tick :: "64 word"
  call_results :: "byte list list"

datatype ChosenCoroutine = ChosenCoroutine (co: nat) (chosen_fd: int)

text \<open>
  Where control is: inside the body of a coroutine, back in the machine right after a
  \<open>longjmp\<close> out of a coroutine, or in the machine at its readiness poll.
\<close>

datatype control = InCoroutine nat | AtYieldBuf nat | InPoll

record CoroutineMachine =
  object :: "nat \<Rightarrow> Coroutine"
  coroutines :: "nat list"
  ready_coroutines :: "ChosenCoroutine list"
  tick_count :: "64 word"
  memory :: "nat \<Rightarrow> byte"
  timers :: "int list"
  control :: control

definition modify :: "nat \<Rightarrow> (Coroutine \<Rightarrow> Coroutine) \<Rightarrow> CoroutineMachine \<Rightarrow> CoroutineMachine" where
  "modify c f m = m\<lparr>object := (object m)(c := f (object m c))\<rparr>"

definition TickCount :: "CoroutineMachine \<Rightarrow> 64 word" where
  "TickCount m = tick_count m"

definition memcpy :: "nat \<Rightarrow> byte list \<Rightarrow> nat \<Rightarrow> (nat \<Rightarrow> byte) \<Rightarrow> (nat \<Rightarrow> byte)" where
  "memcpy dst src n mem = (\<lambda>a. if dst \<le> a \<and> a < dst + n then src ! (a - dst) else mem a)"

definition load :: "nat \<Rightarrow> nat \<Rightarrow> (nat \<Rightarrow> byte) \<Rightarrow> byte list" where
  "load src n mem = map (\<lambda>i. mem (src + i)) [0..<n]"

subsection \<open>Members that YieldValue and Call use and the header only declares\<close>

text \<open>
  Modelled from the spec: the body of \<open>Coroutine::TriggerEvent\<close> (declared at line 124).
  The spec: "Writes a single byte to \<open>event_fd\<close>."
\<close>

definition TriggerEvent :: "nat \<Rightarrow> CoroutineMachine \<Rightarrow> CoroutineMachine" where
  "TriggerEvent c m = modify c (\<lambda>x. x\<lparr>event_count := event_count x + 1\<rparr>) m"

text \<open>
  Modelled from the spec: the body of \<open>Coroutine::ClearEvent\<close> (declared at line 125).
  The spec: "drains all bytes from \<open>event_fd\<close>."
\<close>

definition ClearEvent :: "nat \<Rightarrow> CoroutineMachine \<Rightarrow> CoroutineMachine" where
  "ClearEvent c m = modify c (\<lambda>x. x\<lparr>event_count := 0\<rparr>) m"

text \<open>
  Modelled from the spec: the body of \<open>CoroutineMachine::StartCoroutine\<close> (declared at
  line 164). The spec: "Start is invoked by \<open>Coroutine::Start\<close>, routing into the
  Machine's ready queue." The entry carries the default descriptor of \<open>ChosenCoroutine\<close>
  (line 187), since no descriptor woke the coroutine.
\<close>

definition StartCoroutine :: "nat \<Rightarrow> CoroutineMachine \<Rightarrow> CoroutineMachine" where
  "StartCoroutine c m =
     m\<lparr>ready_coroutines := ready_coroutines m @ [ChosenCoroutine c 0x12345678]\<rparr>"

text \<open>
  Modelled from the spec: the body of \<open>Coroutine::Start\<close> (declared at line 48). The
  spec: "No-op if not in New. Otherwise transitions New to Ready and enqueues on the
  Machine's ready list."
\<close>

definition Start :: "nat \<Rightarrow> CoroutineMachine \<Rightarrow> CoroutineMachine" where
  "Start c m =
     (if state (object m c) = kCoNew
      then StartCoroutine c (modify c (\<lambda>x. x\<lparr>state := kCoReady\<rparr>) m)
      else m)"

subsection \<open>YieldValue and Call (coroutine.h, lines 211 to 258)\<close>

text \<open>
  \<open>YieldValue\<close>, statement by statement: the guarded \<open>memcpy\<close> of \<open>sizeof(value)\<close> bytes,
  the guarded \<open>caller_->TriggerEvent()\<close>, the two assignments, \<open>setjmp(resume_)\<close> and
  the \<open>longjmp\<close> to the machine.
\<close>

definition YieldValue :: "nat \<Rightarrow> byte list \<Rightarrow> CoroutineMachine \<Rightarrow> CoroutineMachine" where
  "YieldValue self v m =
     (let m1 = (case result (object m self) of
                  None \<Rightarrow> m
                | Some r \<Rightarrow> m\<lparr>memory := memcpy r v (length v) (memory m)\<rparr>);
          m2 = (case caller (object m1 self) of
                  None \<Rightarrow> m1
                | Some c \<Rightarrow> TriggerEvent c m1);
          m3 = modify self (\<lambda>x. x\<lparr>state := kCoYielded\<rparr>) m2;
          m4 = modify self (\<lambda>x. x\<lparr>last_tick := TickCount m3\<rparr>) m3;
          m5 = modify self (\<lambda>x. x\<lparr>resume := InYieldValue\<rparr>) m4
      in m5\<lparr>control := AtYieldBuf self\<rparr>)"

text \<open>
  \<open>Call\<close> up to its \<open>longjmp\<close> (lines 235 to 252). \<open>r\<close> is \<open>&result\<close>, never null, and \<open>n\<close>
  is \<open>sizeof(T)\<close>.
\<close>

definition Call_suspend :: "nat \<Rightarrow> nat \<Rightarrow> nat \<Rightarrow> nat \<Rightarrow> CoroutineMachine \<Rightarrow> CoroutineMachine" where
  "Call_suspend self callee r n m =
     (let m1 = modify callee (\<lambda>x. x\<lparr>caller := Some self\<rparr>) m;
          m2 = modify callee (\<lambda>x. x\<lparr>result := Some r\<rparr>) m1;
          m3 = (if state (object m2 callee) = kCoNew
                then Start callee m2
                else TriggerEvent callee m2);
          m4 = modify self (\<lambda>x. x\<lparr>state := kCoYielded\<rparr>) m3;
          m5 = modify self (\<lambda>x. x\<lparr>last_tick := TickCount m4\<rparr>) m4;
          m6 = modify self (\<lambda>x. x\<lparr>resume := InCall callee r n\<rparr>) m5
      in m6\<lparr>control := AtYieldBuf self\<rparr>)"

text \<open>
  \<open>Call\<close> from the point where \<open>setjmp\<close> returns non-zero (lines 253 to 257): the
  returned value is the \<open>n\<close> bytes of the local \<open>result\<close>.
\<close>

definition Call_resume :: "nat \<Rightarrow> nat \<Rightarrow> nat \<Rightarrow> CoroutineMachine \<Rightarrow> byte list \<times> CoroutineMachine" where
  "Call_resume callee r n m =
     (let m1 = modify callee (\<lambda>x. x\<lparr>caller := None\<rparr>) m;
          m2 = modify callee (\<lambda>x. x\<lparr>result := None\<rparr>) m1
      in (load r n (memory m2), m2))"

subsection \<open>The remaining operations of a coroutine\<close>

text \<open>
  Modelled from the spec: the body of \<open>Coroutine::Yield\<close> (declared at line 51), up to
  its transfer to the machine. The spec: "Signals its own event (so the scheduler will
  see it as ready at the next poll), captures \<open>resume_context\<close>, transitions to Yielded,
  updates \<open>last_tick\<close>, and longjmp-equivalent-transfers to the Machine's
  \<open>yield_context\<close>."
\<close>

definition Yield_suspend :: "nat \<Rightarrow> CoroutineMachine \<Rightarrow> CoroutineMachine" where
  "Yield_suspend self m =
     (let m1 = TriggerEvent self m;
          m2 = modify self (\<lambda>x. x\<lparr>resume := InYield\<rparr>) m1;
          m3 = modify self (\<lambda>x. x\<lparr>state := kCoYielded\<rparr>) m2;
          m4 = modify self (\<lambda>x. x\<lparr>last_tick := TickCount m3\<rparr>) m3
      in m4\<lparr>control := AtYieldBuf self\<rparr>)"

text \<open>
  Modelled from the spec: the body of \<open>Coroutine::Yield\<close> after it is resumed. The spec:
  "When eventually resumed, clears the event and returns to the caller of Yield."
\<close>

definition Yield_resume :: "nat \<Rightarrow> CoroutineMachine \<Rightarrow> CoroutineMachine" where
  "Yield_resume self m = ClearEvent self m"

text \<open>
  Modelled from the spec: the body of \<open>Coroutine::AddTimeout\<close> (declared at line 119).
  The spec: "if \<open>timeout_ns > 0\<close>, a one-shot timer descriptor created to fire in
  \<open>timeout_ns\<close> nanoseconds." \<open>timeout_ns\<close> is an \<open>int64_t\<close>, \<open>t\<close> the descriptor the host
  hands out, and \<open>timers\<close> lists the open timer descriptors.
\<close>

definition AddTimeout :: "64 word \<Rightarrow> int \<Rightarrow> CoroutineMachine \<Rightarrow> int option \<times> CoroutineMachine" where
  "AddTimeout timeout_ns t m =
     (if 0 < sint timeout_ns then (Some t, m\<lparr>timers := t # timers m\<rparr>) else (None, m))"

text \<open>
  Modelled from the spec: the body of \<open>Coroutine::Wait\<close> (declared at lines 68 to 75), up
  to its transfer to the machine. The spec: "Builds \<open>wait_fds\<close> = the supplied
  descriptor/event pairs, plus \<open>event_fd\<close>, plus, if \<open>timeout_ns > 0\<close>, a one-shot timer
  descriptor. Transitions to Waiting, captures \<open>resume_context\<close>, updates \<open>last_tick\<close>,
  transfers to the Machine."
\<close>

definition Wait_suspend :: "nat \<Rightarrow> pollfd list \<Rightarrow> 64 word \<Rightarrow> int \<Rightarrow> CoroutineMachine \<Rightarrow> CoroutineMachine" where
  "Wait_suspend self fds timeout_ns t m =
     (let (timer_fd, m1) = AddTimeout timeout_ns t m;
          tfds = (case timer_fd of
                    None \<Rightarrow> []
                  | Some tf \<Rightarrow> [\<lparr>fd = tf, events = POLLIN, revents = 0\<rparr>]);
          m2 = modify self (\<lambda>x. x\<lparr>wait_fds := fds @ [event_fd x] @ tfds\<rparr>) m1;
          m3 = modify self (\<lambda>x. x\<lparr>state := kCoWaiting\<rparr>) m2;
          m4 = modify self (\<lambda>x. x\<lparr>resume := InWait timer_fd\<rparr>) m3;
          m5 = modify self (\<lambda>x. x\<lparr>last_tick := TickCount m4\<rparr>) m4
      in m5\<lparr>control := AtYieldBuf self\<rparr>)"

text \<open>
  Modelled from the spec: the body of \<open>Coroutine::EndOfWait\<close> (declared at line 118),
  which gives \<open>Wait\<close> its result once the coroutine is resumed. The spec: "On resume,
  receives the triggering fd: if it is the timer fd, the timer is closed and Wait
  returns -1; if it is \<open>event_fd\<close>, \<open>event_fd\<close> is cleared and Wait returns -1; otherwise
  Wait returns the fd that became ready." The set \<open>wait_fds\<close> is "cleared on resume", and
  a timer is "closed before Wait returns".
\<close>

definition EndOfWait :: "nat \<Rightarrow> int option \<Rightarrow> int \<Rightarrow> CoroutineMachine \<Rightarrow> int \<times> CoroutineMachine" where
  "EndOfWait self timer_fd res m =
     (let m1 = modify self (\<lambda>x. x\<lparr>wait_fds := []\<rparr>) m;
          m2 = (case timer_fd of
                  None \<Rightarrow> m1
                | Some t \<Rightarrow> m1\<lparr>timers := removeAll t (timers m1)\<rparr>)
      in if timer_fd = Some res then (- 1, m2)
         else if res = fd (event_fd (object m2 self)) then (- 1, ClearEvent self m2)
         else (res, m2))"

text \<open>
  Modelled from the spec: the body of \<open>Coroutine::Exit\<close> (declared at line 77). The spec:
  "Transitions to Dead and longjmp-equivalent-transfers to \<open>exit_context\<close>, skipping any
  remaining body." The exit context lies in the machine.
\<close>

definition Exit :: "nat \<Rightarrow> CoroutineMachine \<Rightarrow> CoroutineMachine" where
  "Exit self m = (modify self (\<lambda>x. x\<lparr>state := kCoDead\<rparr>) m)\<lparr>control := AtYieldBuf self\<rparr>"

text \<open>
  Modelled from the spec: what \<open>Coroutine::InvokeFunctor\<close> and \<open>Coroutine::Resume\<close>
  (declared at lines 117 and 123) do when the body returns. The spec: "the body
  executes until it either returns (to Dead), calls Exit (to Dead via \<open>exit_context\<close>),
  or suspends".
\<close>

definition body_returned :: "nat \<Rightarrow> CoroutineMachine \<Rightarrow> CoroutineMachine" where
  "body_returned self m =
     (modify self (\<lambda>x. x\<lparr>state := kCoDead\<rparr>) m)\<lparr>control := AtYieldBuf self\<rparr>"

text \<open>
  Modelled from the spec: the state in which the constructor of \<open>Coroutine\<close> (declared at
  line 41) leaves the object. The header gives the default member initialisers
  \<open>caller_ = nullptr\<close>, \<open>result_ = nullptr\<close> and \<open>last_tick_ = 0\<close> (lines 139 to 142);
  the spec adds "initialises state = New, creates its private event descriptor".
\<close>

definition new_Coroutine :: "instr list \<Rightarrow> int \<Rightarrow> Coroutine" where
  "new_Coroutine f evfd =
     \<lparr>body = f, state = kCoNew, resume = AtEntry,
      event_fd = \<lparr>fd = evfd, events = POLLIN, revents = 0\<rparr>, event_count = 0,
      wait_fds = [], caller = None, result = None, last_tick = 0, call_results = []\<rparr>"

text \<open>
  Modelled from the spec: the constructor of \<open>CoroutineMachine\<close> (declared at line 152).
  The header gives \<open>tick_count_ = 0\<close> (line 207); the machine starts without coroutines,
  at its poll. Unused addresses of the object store hold a placeholder.
\<close>

definition CoroutineMachine_ctor :: "(nat \<Rightarrow> byte) \<Rightarrow> CoroutineMachine" where
  "CoroutineMachine_ctor mem =
     \<lparr>object = (\<lambda>_. new_Coroutine [] (- 1)), coroutines = [], ready_coroutines = [],
      tick_count = 0, memory = mem, timers = [], control = InPoll\<rparr>"

text \<open>
  Modelled from the spec: the body of \<open>CoroutineMachine::AddCoroutine\<close> (declared at line
  162). The spec: "Add inserts into the live list and allocates an id"; the list is
  "insertion-ordered". The allocation of ids from the external bitset is left out.
\<close>

definition AddCoroutine :: "nat \<Rightarrow> CoroutineMachine \<Rightarrow> CoroutineMachine" where
  "AddCoroutine c m = m\<lparr>coroutines := coroutines m @ [c]\<rparr>"

text \<open>
  Modelled from the spec: the constructor of \<open>Coroutine\<close> (declared at line 41), for an
  object at address \<open>c\<close>. The spec: "Binds to a Machine, allocates an id, allocates a
  stack, records the functor, initialises state = New, creates its private event
  descriptor. If the autostart option is set, enqueues itself on the Machine as Ready."
\<close>

definition Coroutine_ctor :: "nat \<Rightarrow> instr list \<Rightarrow> int \<Rightarrow> bool \<Rightarrow> CoroutineMachine \<Rightarrow> CoroutineMachine" where
  "Coroutine_ctor c f evfd autostart m =
     (let m1 = m\<lparr>object := (object m)(c := new_Coroutine f evfd)\<rparr>;
          m2 = AddCoroutine c m1
      in if autostart then Start c m2 else m2)"

subsection \<open>The scheduler\<close>

text \<open>
  Modelled from the spec: the body of \<open>Coroutine::AddPollFds\<close> (declared at line 121),
  the descriptors a coroutine is polled on. A waiting coroutine is polled on its
  \<open>wait_fds\<close> ("every Waiting coroutine's \<open>wait_fds\<close>"), a yielded one on its event
  descriptor ("suspended on its event", "it will wake only when a subsequent Call or
  TriggerEvent arrives").
\<close>

definition AddPollFds :: "Coroutine \<Rightarrow> pollfd list" where
  "AddPollFds x =
     (case state x of
        kCoWaiting \<Rightarrow> wait_fds x
      | kCoYielded \<Rightarrow> [event_fd x]
      | _ \<Rightarrow> [])"

text \<open>
  Modelled from the spec: the readiness that the poll of the host reports for a
  descriptor of a coroutine. The event descriptor is ready while bytes are pending in
  it ("after Trigger the fd is readable; after Clear it is not"); \<open>ext\<close> lists the other
  descriptors that the host reports ready at this poll (files, sockets, expired
  timers).
\<close>

definition is_ready :: "int list \<Rightarrow> Coroutine \<Rightarrow> pollfd \<Rightarrow> bool" where
  "is_ready ext x p =
     ((fd p = fd (event_fd x) \<and> 0 < event_count x) \<or> fd p \<in> set ext)"

text \<open>
  Modelled from the spec: the part of \<open>CoroutineMachine::ChooseRunnable\<close> (declared at
  line 191) that collects the coroutines woken by a descriptor. The spec: "all
  coroutines whose \<open>wait_fds\<close> contain at least one fd the poll reported ready"; "record
  which specific fd caused the trigger"; "If a coroutine has multiple ready fds, the
  first fd in its own \<open>wait_fds\<close> that is ready wins."
\<close>

definition triggered :: "int list \<Rightarrow> CoroutineMachine \<Rightarrow> ChosenCoroutine list" where
  "triggered ext m =
     List.map_filter
       (\<lambda>c. map_option (\<lambda>p. ChosenCoroutine c (fd p))
              (find (is_ready ext (object m c)) (AddPollFds (object m c))))
       (coroutines m)"

text \<open>
  Modelled from the spec: the body of \<open>CoroutineMachine::ChooseRunnable\<close> (declared at
  line 191). The spec: "Over the ready coroutines plus all coroutines whose \<open>wait_fds\<close>
  contain at least one fd the poll reported ready: order candidates by \<open>last_tick\<close>
  ascending (oldest first). Pick the first." The sort is stable, so that ties keep the
  order of arrival; \<open>None\<close> stands for the null \<open>co\<close> of a default \<open>ChosenCoroutine\<close>.
\<close>

definition ChooseRunnable :: "int list \<Rightarrow> CoroutineMachine \<Rightarrow> ChosenCoroutine option" where
  "ChooseRunnable ext m =
     (case sort_key (\<lambda>x. last_tick (object m (co x))) (ready_coroutines m @ triggered ext m) of
        [] \<Rightarrow> None
      | x # _ \<Rightarrow> Some x)"

text \<open>
  Modelled from the spec: the body of \<open>Coroutine::Resume\<close> (declared at line 123), the
  switch into a coroutine. The spec: "If the target is New: transitions to Running,
  captures the target's \<open>exit_context\<close>, then enters the body. If the target is
  Ready/Yielded/Waiting: transitions to Running and restores its \<open>resume_context\<close>,
  passing it the triggering fd as the value returned from its suspension." The
  suspended operation then runs its second half: \<open>Call\<close> hands its value to the body,
  \<open>Yield\<close> clears the event, \<open>Wait\<close> runs \<open>EndOfWait\<close>, \<open>YieldValue\<close> does nothing (line
  230).
\<close>

definition Resume :: "nat \<Rightarrow> int \<Rightarrow> CoroutineMachine \<Rightarrow> CoroutineMachine" where
  "Resume c f m =
     (let m1 = (modify c (\<lambda>x. x\<lparr>state := kCoRunning\<rparr>) m)\<lparr>control := InCoroutine c\<rparr>
      in case resume (object m c) of
           AtEntry \<Rightarrow> m1
         | InCall callee r n \<Rightarrow>
             (let (v, m2) = Call_resume callee r n m1
              in modify c (\<lambda>x. x\<lparr>call_results := call_results x @ [v]\<rparr>) m2)
         | InYieldValue \<Rightarrow> m1
         | InYield \<Rightarrow> Yield_resume c m1
         | InWait timer_fd \<Rightarrow> snd (EndOfWait c timer_fd f m1))"

text \<open>
  Modelled from the spec: the body of \<open>CoroutineMachine::ProcessPoll\<close> (declared at line
  170). The spec: "performs the selection and switch-in, and returns." The coroutine
  that is selected leaves the ready queue; when nothing is ready the machine stays at
  its poll.
\<close>

definition ProcessPoll :: "int list \<Rightarrow> CoroutineMachine \<Rightarrow> CoroutineMachine" where
  "ProcessPoll ext m =
     (case ChooseRunnable ext m of
        None \<Rightarrow> m
      | Some x \<Rightarrow>
          Resume (co x) (chosen_fd x)
            (m\<lparr>ready_coroutines := filter (\<lambda>y. co y \<noteq> co x) (ready_coroutines m)\<rparr>))"

text \<open>
  Modelled from the spec: the body of \<open>CoroutineMachine::RemoveCoroutine\<close> (declared at
  line 163). The spec: "Remove deallocates the id (recording it as \<open>last_freed\<close>) and
  unlinks." The bookkeeping of ids is left out.
\<close>

definition RemoveCoroutine :: "nat \<Rightarrow> CoroutineMachine \<Rightarrow> CoroutineMachine" where
  "RemoveCoroutine c m = m\<lparr>coroutines := removeAll c (coroutines m)\<rparr>"

text \<open>
  Modelled from the spec: what the machine does when control comes back from coroutine
  \<open>c\<close>, in \<open>CoroutineMachine::Run\<close> and \<open>ProcessPoll\<close>. The spec: "On return to
  \<open>yield_context\<close>, if the coroutine became Dead, invoke the completion callback (if
  set) and remove it from the live list; otherwise leave it in its new state", and
  "increments the tick counter". No completion callback is set here.
\<close>

definition yield_context :: "nat \<Rightarrow> CoroutineMachine \<Rightarrow> CoroutineMachine" where
  "yield_context c m =
     (let m1 = (if state (object m c) = kCoDead then RemoveCoroutine c m else m)
      in m1\<lparr>tick_count := tick_count m1 + 1, control := InPoll\<rparr>)"

subsection \<open>Running a body, and one step of the whole system\<close>

text \<open>
  The next operation of a body. \<open>Call\<close> and \<open>YieldValue\<close> are the templates of the header;
  the others are the models above.
\<close>

fun do_instr :: "nat \<Rightarrow> instr \<Rightarrow> CoroutineMachine \<Rightarrow> CoroutineMachine" where
  "do_instr self (DoCall callee r n) m = Call_suspend self callee r n m"
| "do_instr self (DoYieldValue v) m = YieldValue self v m"
| "do_instr self DoYield m = Yield_suspend self m"
| "do_instr self (DoWait fds timeout_ns t) m = Wait_suspend self fds timeout_ns t m"
| "do_instr self DoExit m = Exit self m"
| "do_instr self (DoStart c) m = Start c m"

definition exec :: "nat \<Rightarrow> CoroutineMachine \<Rightarrow> CoroutineMachine" where
  "exec self m =
     (case body (object m self) of
        [] \<Rightarrow> body_returned self m
      | i # rest \<Rightarrow> do_instr self i (modify self (\<lambda>x. x\<lparr>body := rest\<rparr>) m))"

text \<open>
  One step: the coroutine that control is in performs its next operation, or the
  machine takes control back, or the machine polls with the input \<open>ext\<close> and switches
  into the coroutine it selects.
\<close>

definition step :: "int list \<Rightarrow> CoroutineMachine \<Rightarrow> CoroutineMachine" where
  "step ext m =
     (case control m of
        InCoroutine c \<Rightarrow> exec c m
      | AtYieldBuf c \<Rightarrow> yield_context c m
      | InPoll \<Rightarrow> ProcessPoll ext m)"

subsection \<open>Executions, and the number of running coroutines\<close>

text \<open>
  An execution takes one step per poll input: \<open>run exts m\<close> steps through \<open>exts\<close>, the
  lists of descriptors that the host reports ready.
\<close>

fun run :: "int list list \<Rightarrow> CoroutineMachine \<Rightarrow> CoroutineMachine" where
  "run [] m = m"
| "run (ext # exts) m = run exts (step ext m)"

definition num_running :: "CoroutineMachine \<Rightarrow> nat" where
  "num_running m = length (filter (\<lambda>c. state (object m c) = kCoRunning) (coroutines m))"

text \<open>
  Only the coroutine that control is in may be in state Running.
\<close>

definition only_current_runs :: "CoroutineMachine \<Rightarrow> bool" where
  "only_current_runs m =
     list_all (\<lambda>c. state (object m c) = kCoRunning \<longrightarrow> control m = InCoroutine c) (coroutines m)"

subsection \<open>A caller and its callee\<close>




subsection \<open>Linkage of a callee\<close>

text \<open>
  The caller linkage is consistent when \<open>caller_\<close> and \<open>result_\<close> are both null or
  both set.
\<close>

definition linked :: "Coroutine \<Rightarrow> bool" where
  "linked x = ((caller x = None) = (result x = None))"

subsection \<open>Example machines\<close>

text \<open>
  A machine as the constructors leave it: coroutine 0, started automatically, will call
  coroutine 1 twice; coroutine 1, not started, yields the values \<open>[1, 2]\<close> and \<open>[3, 4]\<close>.
\<close>

definition gen_machine :: CoroutineMachine where
  "gen_machine =
     Coroutine_ctor 1 [DoYieldValue [1, 2], DoYieldValue [3, 4]] 11 False
       (Coroutine_ctor 0 [DoCall 1 100 2, DoCall 1 200 2] 10 True
          (CoroutineMachine_ctor (\<lambda>_. 0)))"



text \<open>
  Two started coroutines: coroutine 0 yields and then calls coroutine 1, whose body is
  a call of itself.
\<close>

definition selfcall :: CoroutineMachine where
  "selfcall =
     Coroutine_ctor 1 [DoCall 1 200 2] 11 True
       (Coroutine_ctor 0 [DoYield, DoCall 1 100 2] 10 True (CoroutineMachine_ctor (\<lambda>_. 0)))"

text \<open>
  Three coroutines at addresses 0, 1 and 2 with event descriptors 10, 11 and 12:
  coroutine 0 is running, coroutine 1 is suspended and still carries the linkage of an
  earlier call by coroutine 2.
\<close>

definition link_example :: CoroutineMachine where
  "link_example =
     (CoroutineMachine_ctor (\<lambda>_. 0))
       \<lparr>object := (\<lambda>_. new_Coroutine [] (- 1))
          (0 := (new_Coroutine [] 10)\<lparr>state := kCoRunning\<rparr>,
           1 := (new_Coroutine [] 11)\<lparr>state := kCoYielded, caller := Some 2, result := Some 300\<rparr>,
           2 := (new_Coroutine [] 12)\<lparr>state := kCoYielded\<rparr>),
        coroutines := [0, 1, 2], tick_count := 5, control := InCoroutine 0\<rparr>"

text \<open>Coroutine 1 running as the callee of coroutine 0, which gave the slot 100.\<close>

definition yv_example :: CoroutineMachine where
  "yv_example =
     (CoroutineMachine_ctor (\<lambda>_. 0))
       \<lparr>object := (\<lambda>_. new_Coroutine [] (- 1))
          (0 := (new_Coroutine [] 10)\<lparr>state := kCoYielded\<rparr>,
           1 := (new_Coroutine [] 11)\<lparr>state := kCoRunning, caller := Some 0, result := Some 100\<rparr>),
        coroutines := [0, 1], tick_count := 5, control := InCoroutine 1\<rparr>"

text \<open>
  Coroutine 0 waiting on descriptor 30 with a timeout, for which the host handed out
  the timer descriptor 40, and with its event signalled.
\<close>

definition wait_example :: CoroutineMachine where
  "wait_example =
     TriggerEvent 0
       (Wait_suspend 0 [\<lparr>fd = 30, events = POLLIN, revents = 0\<rparr>] 1000 40 link_example)"

section \<open>Properties\<close>

subsection \<open>Field projections of the basic updates\<close>

lemma modify_fields [simp]:
  "object (modify c f m) = (object m)(c := f (object m c))"
  "coroutines (modify c f m) = coroutines m"
  "ready_coroutines (modify c f m) = ready_coroutines m"
  "tick_count (modify c f m) = tick_count m"
  "memory (modify c f m) = memory m"
  "timers (modify c f m) = timers m"
  "control (modify c f m) = control m"
  by (simp_all add: modify_def)

lemma TriggerEvent_fields [simp]:
  "object (TriggerEvent c m) = (object m)(c := (object m c)\<lparr>event_count := event_count (object m c) + 1\<rparr>)"
  "coroutines (TriggerEvent c m) = coroutines m"
  "ready_coroutines (TriggerEvent c m) = ready_coroutines m"
  "tick_count (TriggerEvent c m) = tick_count m"
  "memory (TriggerEvent c m) = memory m"
  "timers (TriggerEvent c m) = timers m"
  "control (TriggerEvent c m) = control m"
  by (simp_all add: TriggerEvent_def)

lemma ClearEvent_fields [simp]:
  "object (ClearEvent c m) = (object m)(c := (object m c)\<lparr>event_count := 0\<rparr>)"
  "coroutines (ClearEvent c m) = coroutines m"
  "ready_coroutines (ClearEvent c m) = ready_coroutines m"
  "tick_count (ClearEvent c m) = tick_count m"
  "memory (ClearEvent c m) = memory m"
  "timers (ClearEvent c m) = timers m"
  "control (ClearEvent c m) = control m"
  by (simp_all add: ClearEvent_def)

lemma Start_fields [simp]:
  "object (Start c m) =
     (if state (object m c) = kCoNew then (object m)(c := (object m c)\<lparr>state := kCoReady\<rparr>)
      else object m)"
  "coroutines (Start c m) = coroutines m"
  "ready_coroutines (Start c m) =
     (if state (object m c) = kCoNew then ready_coroutines m @ [ChosenCoroutine c 0x12345678]
      else ready_coroutines m)"
  "tick_count (Start c m) = tick_count m"
  "memory (Start c m) = memory m"
  "timers (Start c m) = timers m"
  "control (Start c m) = control m"
  by (simp_all add: Start_def StartCoroutine_def)

lemma memcpy_inside: "i < n \<Longrightarrow> memcpy r v n mem (r + i) = v ! i"
  by (simp add: memcpy_def)

lemma memcpy_outside: "a < r \<or> r + n \<le> a \<Longrightarrow> memcpy r v n mem a = mem a"
  by (auto simp: memcpy_def)





subsection \<open>YieldValue\<close>

text \<open>
  C3: for every value \<open>v\<close>, \<open>YieldValue(v)\<close> copies exactly the \<open>sizeof(v)\<close> bytes of \<open>v\<close>
  into the result slot when the slot is set, leaving every other byte of memory as it
  was, and copies nothing when the slot is null; it adds one signal to the event of
  the caller when a caller is set and touches no other event, so its own event is not
  signalled (unless the coroutine is recorded as its own caller); it leaves the
  coroutine in state Yielded with \<open>last_tick\<close> equal to the tick count of the
  machine, suspended inside \<open>YieldValue\<close>, and control in the machine.
\<close>

theorem YieldValue_effect:
  "(case result (object m self) of
      None \<Rightarrow> memory (YieldValue self v m) = memory m
    | Some r \<Rightarrow>
        (\<forall>i<length v. memory (YieldValue self v m) (r + i) = v ! i)
        \<and> (\<forall>a. a < r \<or> r + length v \<le> a \<longrightarrow> memory (YieldValue self v m) a = memory m a))
   \<and> (\<forall>c. event_count (object (YieldValue self v m) c) =
          (if caller (object m self) = Some c then event_count (object m c) + 1
           else event_count (object m c)))
   \<and> state (object (YieldValue self v m) self) = kCoYielded
   \<and> last_tick (object (YieldValue self v m) self) = tick_count m
   \<and> resume (object (YieldValue self v m) self) = InYieldValue
   \<and> control (YieldValue self v m) = AtYieldBuf self"
  by (auto simp: YieldValue_def Let_def TickCount_def memcpy_inside memcpy_outside
      split: option.splits)

theorem YieldValue_effect_witness:
  "memory (YieldValue 1 [7, 9] yv_example) 100 = 7
   \<and> memory (YieldValue 1 [7, 9] yv_example) 101 = 9
   \<and> memory (YieldValue 1 [7, 9] yv_example) 102 = memory yv_example 102
   \<and> event_count (object (YieldValue 1 [7, 9] yv_example) 0) = 1
   \<and> event_count (object (YieldValue 1 [7, 9] yv_example) 1) = 0
   \<and> state (object (YieldValue 1 [7, 9] yv_example) 1) = kCoYielded
   \<and> last_tick (object (YieldValue 1 [7, 9] yv_example) 1) = 5"
proof -
  let ?M = "YieldValue 1 [7, 9] yv_example"
  have r: "result (object yv_example 1) = Some 100" "caller (object yv_example 1) = Some 0"
    "event_count (object yv_example 0) = 0" "event_count (object yv_example 1) = 0"
    "tick_count yv_example = 5"
    by (simp_all add: yv_example_def CoroutineMachine_ctor_def new_Coroutine_def)
  note e = YieldValue_effect [where m = yv_example and self = 1 and v = "[7, 9]"]
  from e r have inside: "\<And>i. i < 2 \<Longrightarrow> memory ?M (100 + i) = [7, 9] ! i"
    and outside: "\<And>a. a < 100 \<or> 102 \<le> a \<Longrightarrow> memory ?M a = memory yv_example a"
    and ev: "\<And>c. event_count (object ?M c) =
               (if c = 0 then event_count (object yv_example c) + 1
                else event_count (object yv_example c))"
    and rest: "state (object ?M 1) = kCoYielded" "last_tick (object ?M 1) = 5"
    by auto
  show ?thesis
    using inside [of 0] inside [of 1] outside [of 102] ev [of 0] ev [of 1] rest r
    by simp
qed

subsection \<open>Call\<close>

text \<open>
  C10 (as stated, refuted): a previous caller can be triggered by the \<open>Call\<close> that
  replaces it. In the example coroutine 1 has called itself and is suspended inside
  that \<open>Call\<close>, recorded as its own caller with one signal pending; the \<open>Call\<close> of
  coroutine 0 replaces the linkage and, the callee not being New, signals the event of
  coroutine 1, the previous caller.
\<close>

theorem Call_triggers_previous_self_caller:
  "control (run (replicate 7 []) selfcall) = InCoroutine 0
   \<and> body (object (run (replicate 7 []) selfcall) 0) = [DoCall 1 100 2]
   \<and> caller (object (run (replicate 7 []) selfcall) 1) = Some 1
   \<and> event_count (object (run (replicate 7 []) selfcall) 1) = 1
   \<and> caller (object (run (replicate 8 []) selfcall) 1) = Some 0
   \<and> result (object (run (replicate 8 []) selfcall) 1) = Some 100
   \<and> event_count (object (run (replicate 8 []) selfcall) 1) = 2"
  by code_simp

text \<open>
  C10 (amended): \<open>Call\<close> overwrites the linkage of the callee without looking at it.
  Whatever \<open>caller_\<close> and \<open>result_\<close> of the callee were, after the first half of \<open>Call\<close>
  they are the new caller and the address of its local \<open>result\<close>. The only event that
  \<open>Call\<close> signals is that of the callee, once and only when the callee is not New; the
  event of every other coroutine is as it was, and no coroutine other than the callee
  and the new caller is changed at all. So a previous caller is replaced without being
  triggered unless it is the callee itself.
\<close>

theorem Call_overwrites_linkage:
  "caller (object (Call_suspend self callee r n m) callee) = Some self
   \<and> result (object (Call_suspend self callee r n m) callee) = Some r
   \<and> (\<forall>p. event_count (object (Call_suspend self callee r n m) p) =
          (if p = callee \<and> state (object m callee) \<noteq> kCoNew
           then event_count (object m p) + 1 else event_count (object m p)))
   \<and> (\<forall>p. p \<noteq> callee \<and> p \<noteq> self \<longrightarrow>
          object (Call_suspend self callee r n m) p = object m p)"
  by (simp add: Call_suspend_def Let_def)

theorem Call_overwrites_linkage_witness:
  "caller (object link_example 1) = Some 2
   \<and> result (object link_example 1) = Some 300
   \<and> caller (object (Call_suspend 0 1 100 2 link_example) 1) = Some 0
   \<and> result (object (Call_suspend 0 1 100 2 link_example) 1) = Some 100
   \<and> event_count (object (Call_suspend 0 1 100 2 link_example) 2) = 0
   \<and> event_count (object (Call_suspend 0 1 100 2 link_example) 1) = 1
   \<and> object (Call_suspend 0 1 100 2 link_example) 2 = object link_example 2"
proof -
  note e = Call_overwrites_linkage [where self = 0 and callee = 1 and r = 100 and n = 2
      and m = link_example]
  from e have ev: "\<And>p. event_count (object (Call_suspend 0 1 100 2 link_example) p) =
          (if p = 1 \<and> state (object link_example 1) \<noteq> kCoNew
           then event_count (object link_example p) + 1 else event_count (object link_example p))"
    and ob: "\<And>p. p \<noteq> 1 \<and> p \<noteq> 0 \<Longrightarrow>
        object (Call_suspend 0 1 100 2 link_example) p = object link_example p"
    by auto
  have "caller (object link_example 1) = Some 2" "result (object link_example 1) = Some 300"
    "event_count (object link_example 2) = 0" "event_count (object link_example 1) = 0"
    "state (object link_example 1) = kCoYielded"
    by (simp_all add: link_example_def new_Coroutine_def)
  with e ev [of 2] ev [of 1] ob [of 2] show ?thesis by simp
qed

text \<open>
  C4 (as stated, refuted): the suspension inside \<open>Call\<close> is not the suspension of
  \<open>Yield\<close>. In the example \<open>Yield\<close> leaves one signal in the event of coroutine 0, and
  the next poll finds coroutine 0 ready; \<open>Call\<close> leaves none, and the next poll finds
  only the callee.
\<close>

theorem Call_suspension_is_not_Yield:
  "event_count (object (Call_suspend 0 1 100 2 link_example) 0) = 0
   \<and> event_count (object (Yield_suspend 0 link_example) 0) = 1
   \<and> object (Call_suspend 0 1 100 2 link_example) 0 \<noteq> object (Yield_suspend 0 link_example) 0
   \<and> triggered [] (Call_suspend 0 1 100 2 link_example) = [ChosenCoroutine 1 11]
   \<and> triggered [] (Yield_suspend 0 link_example) = [ChosenCoroutine 0 10]"
  by (simp add: Call_suspend_def Yield_suspend_def Let_def TickCount_def link_example_def
      CoroutineMachine_ctor_def new_Coroutine_def triggered_def AddPollFds_def is_ready_def
      List.map_filter_def)

text \<open>
  C4 (amended): for a caller other than the callee, the suspension inside \<open>Call\<close>
  leaves the caller as \<open>Yield\<close> would, in state Yielded with \<open>last_tick\<close> the tick count
  of the machine and control in the machine, except that \<open>Call\<close> adds no signal to the
  event of the caller, which keeps the count it had where \<open>Yield\<close> adds one, and that
  the caller is suspended inside \<open>Call\<close>.
\<close>

theorem Call_suspension_without_signal:
  "self \<noteq> callee \<Longrightarrow>
     object (Call_suspend self callee r n m) self =
       (object (Yield_suspend self m) self)
         \<lparr>event_count := event_count (object m self), resume := InCall callee r n\<rparr>
     \<and> state (object (Call_suspend self callee r n m) self) = kCoYielded
     \<and> last_tick (object (Call_suspend self callee r n m) self) = tick_count m
     \<and> event_count (object (Call_suspend self callee r n m) self) = event_count (object m self)
     \<and> event_count (object (Yield_suspend self m) self) = event_count (object m self) + 1
     \<and> control (Call_suspend self callee r n m) = AtYieldBuf self
     \<and> control (Yield_suspend self m) = AtYieldBuf self"
  by (simp add: Call_suspend_def Yield_suspend_def Let_def TickCount_def)

theorem Call_suspension_without_signal_witness:
  "state (object (Call_suspend 0 1 100 2 link_example) 0) = kCoYielded
   \<and> last_tick (object (Call_suspend 0 1 100 2 link_example) 0) = 5
   \<and> event_count (object (Call_suspend 0 1 100 2 link_example) 0) = 0
   \<and> control (Call_suspend 0 1 100 2 link_example) = AtYieldBuf 0"
proof -
  have d: "(0 :: nat) \<noteq> 1" by simp
  have "tick_count link_example = 5" "event_count (object link_example 0) = 0"
    by (simp_all add: link_example_def CoroutineMachine_ctor_def new_Coroutine_def)
  with Call_suspension_without_signal [OF d, of 100 2 link_example]
  show ?thesis by metis
qed


subsection \<open>Wait\<close>

text \<open>
  C5: \<open>Wait\<close> suspends with the timer it created, if any, as the timer of its second
  half. When the descriptor that woke the coroutine is that timer, the timer is closed
  and \<open>Wait\<close> returns -1; when it is the event descriptor of the coroutine, the event is
  cleared and \<open>Wait\<close> returns -1; otherwise \<open>Wait\<close> returns the descriptor.
\<close>

theorem EndOfWait_result:
  "(timer_fd = Some res \<longrightarrow>
      fst (EndOfWait self timer_fd res m) = - 1
      \<and> res \<notin> set (timers (snd (EndOfWait self timer_fd res m))))
   \<and> (timer_fd \<noteq> Some res \<and> res = fd (event_fd (object m self)) \<longrightarrow>
      fst (EndOfWait self timer_fd res m) = - 1
      \<and> event_count (object (snd (EndOfWait self timer_fd res m)) self) = 0)
   \<and> (timer_fd \<noteq> Some res \<and> res \<noteq> fd (event_fd (object m self)) \<longrightarrow>
      fst (EndOfWait self timer_fd res m) = res)
   \<and> resume (object (Wait_suspend self fds timeout_ns t m) self) =
        InWait (if 0 < sint timeout_ns then Some t else None)"
  by (auto simp: EndOfWait_def Wait_suspend_def AddTimeout_def Let_def split: option.splits)


theorem EndOfWait_result_witness:
  "resume (object wait_example 0) = InWait (Some 40)
   \<and> 40 \<in> set (timers wait_example)
   \<and> event_count (object wait_example 0) = 1
   \<and> fst (EndOfWait 0 (Some 40) 40 wait_example) = - 1
   \<and> 40 \<notin> set (timers (snd (EndOfWait 0 (Some 40) 40 wait_example)))
   \<and> fst (EndOfWait 0 (Some 40) 10 wait_example) = - 1
   \<and> event_count (object (snd (EndOfWait 0 (Some 40) 10 wait_example)) 0) = 0
   \<and> fst (EndOfWait 0 (Some 40) 30 wait_example) = 30"
proof -
  have f: "fd (event_fd (object wait_example 0)) = 10"
    "resume (object wait_example 0) = InWait (Some 40)" "40 \<in> set (timers wait_example)"
    "event_count (object wait_example 0) = 1"
    by (simp_all add: wait_example_def Wait_suspend_def AddTimeout_def Let_def link_example_def
        CoroutineMachine_ctor_def new_Coroutine_def)
  show ?thesis
    using EndOfWait_result [where timer_fd = "Some 40" and res = 40 and self = 0 and m = wait_example]
      EndOfWait_result [where timer_fd = "Some 40" and res = 10 and self = 0 and m = wait_example]
      EndOfWait_result [where timer_fd = "Some 40" and res = 30 and self = 0 and m = wait_example]
      f
    by simp
qed

subsection \<open>The caller linkage is consistent\<close>

lemma linked_update [simp]:
  "linked (x\<lparr>state := s\<rparr>) = linked x"
  "linked (x\<lparr>body := b\<rparr>) = linked x"
  "linked (x\<lparr>resume := rp\<rparr>) = linked x"
  "linked (x\<lparr>event_count := e\<rparr>) = linked x"
  "linked (x\<lparr>wait_fds := w\<rparr>) = linked x"
  "linked (x\<lparr>last_tick := t\<rparr>) = linked x"
  "linked (x\<lparr>call_results := cr\<rparr>) = linked x"
  "linked (x\<lparr>caller := Some a, result := Some a'\<rparr>)"
  "linked (x\<lparr>caller := None, result := None\<rparr>)"
  by (simp_all add: linked_def)

lemma linked_do_instr: "linked (object m c) \<Longrightarrow> linked (object (do_instr self i m) c)"
  by (cases i)
    (auto simp: Call_suspend_def YieldValue_def Yield_suspend_def Wait_suspend_def
      AddTimeout_def Exit_def Let_def split: option.splits)

lemma linked_exec: "linked (object m c) \<Longrightarrow> linked (object (exec self m) c)"
  by (auto simp: exec_def body_returned_def split: list.splits intro!: linked_do_instr)

lemma linked_Resume: "linked (object m c) \<Longrightarrow> linked (object (Resume x f m) c)"
  by (auto simp: Resume_def Call_resume_def Yield_resume_def EndOfWait_def Let_def
      split: resume_point.splits option.splits)

lemma linked_step: "linked (object m c) \<Longrightarrow> linked (object (step ext m) c)"
  by (auto simp: step_def ProcessPoll_def yield_context_def RemoveCoroutine_def Let_def
      split: control.splits option.splits intro!: linked_exec linked_Resume)

text \<open>
  C6: \<open>caller_\<close> is null exactly when \<open>result_\<close> is null. This holds for a coroutine as
  constructed, and constructing further coroutines and every step of the system (the
  operations of a body, the switch into a coroutine, the return to the machine)
  preserve it for every coroutine. \<open>Call\<close> sets both before it suspends and clears both
  when it resumes; \<open>YieldValue\<close> changes neither, for any coroutine.
\<close>

theorem linkage_invariant:
  "linked (new_Coroutine f evfd)
   \<and> (linked (object m c) \<longrightarrow> linked (object (Coroutine_ctor c' f evfd autostart m) c))
   \<and> (linked (object m c) \<longrightarrow> linked (object (step ext m) c))
   \<and> caller (object (Call_suspend self callee r n m) callee) \<noteq> None
   \<and> result (object (Call_suspend self callee r n m) callee) \<noteq> None
   \<and> caller (object (snd (Call_resume callee r n m)) callee) = None
   \<and> result (object (snd (Call_resume callee r n m)) callee) = None
   \<and> caller (object (YieldValue self v m) c) = caller (object m c)
   \<and> result (object (YieldValue self v m) c) = result (object m c)"
proof -
  have "linked (new_Coroutine f evfd)"
    by (simp add: linked_def new_Coroutine_def)
  moreover from this
  have "linked (object m c) \<longrightarrow> linked (object (Coroutine_ctor c' f evfd autostart m) c)"
    by (simp add: Coroutine_ctor_def AddCoroutine_def Let_def Start_def StartCoroutine_def modify_def)
  moreover have "linked (object m c) \<longrightarrow> linked (object (step ext m) c)"
    by (simp add: linked_step)
  moreover have "caller (object (Call_suspend self callee r n m) callee) \<noteq> None"
    "result (object (Call_suspend self callee r n m) callee) \<noteq> None"
    by (simp_all add: Call_suspend_def Let_def)
  moreover have "caller (object (snd (Call_resume callee r n m)) callee) = None"
    "result (object (snd (Call_resume callee r n m)) callee) = None"
    by (simp_all add: Call_resume_def Let_def)
  moreover have "caller (object (YieldValue self v m) c) = caller (object m c)"
    "result (object (YieldValue self v m) c) = result (object m c)"
    by (simp_all add: YieldValue_def Let_def split: option.splits)
  ultimately show ?thesis by simp
qed

theorem linkage_invariant_witness:
  "linked (object link_example 1)
   \<and> linked (object (Coroutine_ctor 3 [DoYield] 13 True link_example) 1)
   \<and> linked (object (step [] link_example) 1)"
proof -
  have l: "linked (object link_example 1)"
    by (simp add: linked_def link_example_def new_Coroutine_def)
  from linkage_invariant
    [where m = link_example and c = 1 and ext = "[]" and c' = 3 and f = "[DoYield]"
      and evfd = 13 and autostart = True] l
  show ?thesis by blast
qed

subsection \<open>At most one coroutine is running\<close>

lemma state_do_instr:
  "state (object (do_instr self i m) c) = kCoRunning \<Longrightarrow>
     state (object m c) = kCoRunning \<and> (c \<noteq> self \<or> (\<exists>x. i = DoStart x))"
  by (cases i)
    (auto simp: Call_suspend_def YieldValue_def Yield_suspend_def Wait_suspend_def
      AddTimeout_def Exit_def Let_def split: option.splits if_splits)

lemma coroutines_do_instr [simp]: "coroutines (do_instr self i m) = coroutines m"
  by (cases i)
    (auto simp: Call_suspend_def YieldValue_def Yield_suspend_def Wait_suspend_def
      AddTimeout_def Exit_def Let_def split: option.splits if_splits)

lemma control_do_instr:
  "control (do_instr self i m) = (case i of DoStart x \<Rightarrow> control m | _ \<Rightarrow> AtYieldBuf self)"
  by (cases i)
    (auto simp: Call_suspend_def YieldValue_def Yield_suspend_def Wait_suspend_def
      AddTimeout_def Exit_def Let_def split: option.splits if_splits)

lemma coroutines_exec [simp]: "coroutines (exec self m) = coroutines m"
  by (simp add: exec_def body_returned_def split: list.splits)

lemma coroutines_Resume [simp]: "coroutines (Resume c f m) = coroutines m"
  by (simp add: Resume_def Call_resume_def Yield_resume_def EndOfWait_def Let_def
      split: resume_point.splits option.splits)

lemma control_Resume [simp]: "control (Resume c f m) = InCoroutine c"
  by (simp add: Resume_def Call_resume_def Yield_resume_def EndOfWait_def Let_def
      split: resume_point.splits option.splits)

lemma state_Resume:
  "state (object (Resume c f m) x) = (if x = c then kCoRunning else state (object m x))"
  by (simp add: Resume_def Call_resume_def Yield_resume_def EndOfWait_def Let_def
      split: resume_point.splits option.splits)

lemma only_current_runs_exec:
  assumes "only_current_runs m" and "control m = InCoroutine self"
  shows "only_current_runs (exec self m)"
proof (cases "body (object m self)")
  case Nil
  with assms show ?thesis
    by (auto simp: only_current_runs_def list_all_iff exec_def body_returned_def)
next
  case (Cons i rest)
  let ?m = "modify self (\<lambda>x. x\<lparr>body := rest\<rparr>) m"
  have e: "exec self m = do_instr self i ?m" using Cons by (simp add: exec_def)
  show ?thesis
    unfolding only_current_runs_def list_all_iff e
  proof (intro ballI impI)
    fix c assume c: "c \<in> set (coroutines (do_instr self i ?m))"
      and r: "state (object (do_instr self i ?m) c) = kCoRunning"
    from c have live: "c \<in> set (coroutines m)" by simp
    from state_do_instr [OF r]
    have before: "state (object ?m c) = kCoRunning" and which: "c \<noteq> self \<or> (\<exists>x. i = DoStart x)"
      by simp_all
    from before have "state (object m c) = kCoRunning" by (auto split: if_splits)
    with assms live have "c = self" by (auto simp: only_current_runs_def list_all_iff)
    with which assms show "control (do_instr self i ?m) = InCoroutine c"
      by (auto simp: control_do_instr)
  qed
qed

lemma only_current_runs_step: "only_current_runs m \<Longrightarrow> only_current_runs (step ext m)"
proof (cases "control m")
  case (InCoroutine c)
  assume "only_current_runs m"
  with InCoroutine show ?thesis by (simp add: step_def only_current_runs_exec)
next
  case (AtYieldBuf c)
  assume "only_current_runs m"
  with AtYieldBuf show ?thesis
    by (auto simp: step_def only_current_runs_def list_all_iff yield_context_def
        RemoveCoroutine_def Let_def)
next
  case InPoll
  assume "only_current_runs m"
  with InPoll show ?thesis
    by (auto simp: step_def only_current_runs_def list_all_iff ProcessPoll_def state_Resume
        split: option.splits)
qed

lemma distinct_step: "distinct (coroutines m) \<Longrightarrow> distinct (coroutines (step ext m))"
proof (cases "control m")
  case (InCoroutine c)
  assume "distinct (coroutines m)"
  with InCoroutine show ?thesis by (simp add: step_def)
next
  case (AtYieldBuf c)
  assume "distinct (coroutines m)"
  with AtYieldBuf show ?thesis
    by (simp add: step_def yield_context_def RemoveCoroutine_def Let_def distinct_removeAll)
next
  case InPoll
  assume "distinct (coroutines m)"
  with InPoll show ?thesis
    by (simp add: step_def ProcessPoll_def split: option.splits)
qed

lemma filter_at_most_one:
  "distinct xs \<Longrightarrow> \<forall>x\<in>set xs. P x \<longrightarrow> x = c \<Longrightarrow> length (filter P xs) \<le> 1"
proof (induction xs)
  case Nil
  then show ?case by simp
next
  case (Cons a xs)
  from Cons.prems have d: "distinct xs" and q: "\<forall>x\<in>set xs. P x \<longrightarrow> x = c"
    by simp_all
  show ?case
  proof (cases "P a")
    case True
    with Cons.prems have a: "a = c" by simp
    have "\<forall>x\<in>set xs. \<not> P x"
    proof (intro ballI notI)
      fix x assume x: "x \<in> set xs" and "P x"
      with q have "x = c" by blast
      with a x Cons.prems(1) show False by simp
    qed
    then have "filter P xs = []" by (simp add: filter_empty_conv)
    with True show ?thesis by simp
  next
    case False
    with Cons.IH [OF d q] show ?thesis by simp
  qed
qed

lemma num_running_le:
  assumes "only_current_runs m" and "distinct (coroutines m)"
  shows "num_running m \<le> 1"
proof -
  have "\<exists>c. \<forall>x\<in>set (coroutines m). state (object m x) = kCoRunning \<longrightarrow> x = c"
  proof (cases "control m")
    case (InCoroutine c)
    with assms(1) have "\<forall>x\<in>set (coroutines m). state (object m x) = kCoRunning \<longrightarrow> x = c"
      by (simp add: only_current_runs_def list_all_iff)
    then show ?thesis ..
  next
    case (AtYieldBuf c)
    with assms(1) have "\<forall>x\<in>set (coroutines m). state (object m x) = kCoRunning \<longrightarrow> x = 0"
      by (simp add: only_current_runs_def list_all_iff)
    then show ?thesis ..
  next
    case InPoll
    with assms(1) have "\<forall>x\<in>set (coroutines m). state (object m x) = kCoRunning \<longrightarrow> x = 0"
      by (simp add: only_current_runs_def list_all_iff)
    then show ?thesis ..
  qed
  then obtain c
    where c: "\<forall>x\<in>set (coroutines m). state (object m x) = kCoRunning \<longrightarrow> x = c"
    by blast
  show ?thesis
    unfolding num_running_def
    using assms(2) c
    by (rule filter_at_most_one
        [where xs = "coroutines m" and P = "\<lambda>x. state (object m x) = kCoRunning" and c = c])
qed

lemma invariants_run:
  "only_current_runs m \<Longrightarrow> distinct (coroutines m) \<Longrightarrow>
     only_current_runs (run exts m) \<and> distinct (coroutines (run exts m))"
  by (induction exts arbitrary: m) (simp_all add: only_current_runs_step distinct_step)

text \<open>
  C7 (as stated, refuted): it is not the case that exactly one coroutine is in state
  Running at every moment. None is before the machine has switched into a coroutine,
  and none is while the machine itself runs: after its first step the example has one
  running coroutine, and after the second step, in which that coroutine suspends inside
  \<open>Call\<close>, it has none again.
\<close>

theorem not_always_one_running:
  "num_running gen_machine = 0
   \<and> num_running (run [[]] gen_machine) = 1
   \<and> num_running (run [[], []] gen_machine) = 0"
  by (simp add: run.simps num_running_def gen_machine_def Coroutine_ctor_def AddCoroutine_def
      CoroutineMachine_ctor_def new_Coroutine_def Let_def step_def ProcessPoll_def
      ChooseRunnable_def triggered_def AddPollFds_def is_ready_def List.map_filter_def
      Resume_def exec_def Call_suspend_def TickCount_def)

text \<open>
  C7 (amended): at most one coroutine of a machine is in state Running at any moment,
  and it is the one that control is in; all others are in New, Ready, Yielded, Waiting
  or Dead. This holds at every moment of every execution that starts from a machine
  with a duplicate-free list of coroutines in which only the coroutine that control is
  in, if any, is Running.
\<close>

theorem at_most_one_running:
  "only_current_runs m \<and> distinct (coroutines m) \<Longrightarrow>
     num_running (run exts m) \<le> 1 \<and> only_current_runs (run exts m)"
  using invariants_run [of m exts] num_running_le [of "run exts m"] by blast

theorem at_most_one_running_witness:
  "only_current_runs gen_machine \<and> distinct (coroutines gen_machine)
   \<and> num_running (run [[], [], []] gen_machine) \<le> 1"
proof -
  have h: "only_current_runs gen_machine \<and> distinct (coroutines gen_machine)"
    by (simp add: only_current_runs_def gen_machine_def Coroutine_ctor_def AddCoroutine_def
        CoroutineMachine_ctor_def new_Coroutine_def Let_def)
  from at_most_one_running [OF h, of "[[], [], []]"] h show ?thesis by blast
qed

subsection \<open>The choice of the scheduler\<close>











subsection \<open>One call, step by step\<close>









subsection \<open>A generator\<close>





subsection \<open>Sleeping wrappers\<close>

lemma mult_small:
  fixes x :: "64 word"
  assumes "0 \<le> sint x" and "sint x * k < 2 ^ 63" and "0 \<le> k"
  shows "uint (x * word_of_int k) = sint x * k" and "sint (x * word_of_int k) = sint x * k"
proof -
  have w: "x * word_of_int k = word_of_int (sint x * k)"
    by simp
  then have "uint (x * word_of_int k) = take_bit 64 (sint x * k)"
    by (simp only: uint_word_of_int_eq) simp
  also have "\<dots> = sint x * k"
    using assms by (intro take_bit_int_eq_self) simp_all
  finally show "uint (x * word_of_int k) = sint x * k" .
  have "sint (x * word_of_int k) = signed_take_bit 63 (sint x * k)"
    by (simp only: w sint_sbintrunc') simp
  also have "\<dots> = sint x * k"
  proof (rule signed_take_bit_int_eq_self)
    have "0 \<le> sint x * k" using assms(1,3) by simp
    then show "- (2 ^ 63) \<le> sint x * k" by simp
    show "sint x * k < 2 ^ 63" using assms(2) .
  qed
  finally show "sint (x * word_of_int k) = sint x * k" .
qed

text \<open>
  C8 (as stated, refuted): a negative \<open>msecs\<close> reaches \<open>Nanosleep\<close> as a huge unsigned
  count, and a large positive one wraps around; neither is \<open>msecs \<times> 1,000,000\<close>.
\<close>

theorem Millisleep_not_exact:
  "Millisleep uint (- 1) \<noteq> sint (- 1 :: 64 word) * 1000000
   \<and> Millisleep uint 18446744073710 \<noteq> sint (18446744073710 :: 64 word) * 1000000
   \<and> Sleep uint (- 1) \<noteq> sint (- 1 :: 64 word) * 1000000000"
  by (simp add: Millisleep_def Sleep_def)

text \<open>
  C8 (amended): for every \<open>msecs\<close> from 0 to 9223372036854 \<open>Millisleep\<close> passes exactly
  \<open>msecs \<times> 1,000,000\<close> to \<open>Nanosleep\<close>, and for every \<open>secs\<close> from 0 to 9223372036
  \<open>Sleep\<close> passes exactly \<open>secs \<times> 1,000,000,000\<close>; the 64-bit product is that number
  both as the signed value the multiplication computes and as the unsigned value
  \<open>Nanosleep\<close> receives.
\<close>

theorem sleep_wrappers_exact_in_range:
  "(0 \<le> sint msecs \<and> sint msecs \<le> 9223372036854
      \<longrightarrow> Millisleep uint msecs = sint msecs * 1000000
        \<and> Millisleep sint msecs = sint msecs * 1000000)
   \<and> (0 \<le> sint secs \<and> sint secs \<le> 9223372036
      \<longrightarrow> Sleep uint secs = sint secs * 1000000000
        \<and> Sleep sint secs = sint secs * 1000000000)"
proof (intro conjI impI)
  assume a: "0 \<le> sint msecs \<and> sint msecs \<le> 9223372036854"
  then have b: "sint msecs * 1000000 < 2 ^ 63" by simp
  from a b have "uint (msecs * word_of_int 1000000) = sint msecs * 1000000"
    by (intro mult_small) simp_all
  then show "Millisleep uint msecs = sint msecs * 1000000"
    by (simp add: Millisleep_def)
  from a b have "sint (msecs * word_of_int 1000000) = sint msecs * 1000000"
    by (intro mult_small) simp_all
  then show "Millisleep sint msecs = sint msecs * 1000000"
    by (simp add: Millisleep_def)
next
  assume a: "0 \<le> sint secs \<and> sint secs \<le> 9223372036"
  then have b: "sint secs * 1000000000 < 2 ^ 63" by simp
  from a b have "uint (secs * word_of_int 1000000000) = sint secs * 1000000000"
    by (intro mult_small) simp_all
  then show "Sleep uint secs = sint secs * 1000000000"
    by (simp add: Sleep_def)
  from a b have "sint (secs * word_of_int 1000000000) = sint secs * 1000000000"
    by (intro mult_small) simp_all
  then show "Sleep sint secs = sint secs * 1000000000"
    by (simp add: Sleep_def)
qed

theorem sleep_wrappers_exact_in_range_witness:
  "Millisleep uint 1500 = 1500000000 \<and> Millisleep sint 1500 = 1500000000
   \<and> Sleep uint 2 = 2000000000 \<and> Sleep sint 2 = 2000000000"
  using sleep_wrappers_exact_in_range [of 1500 2] by simp

end
